theory Spec2Isabelle
  imports Complex_Main
begin

section \<open>The client store (src/app/store.tsx)\<close>

text \<open>
  The Zustand store is a record of its data fields; every setter becomes a function from
  the store to the updated store. JavaScript numbers that the code only stores, compares
  with array indices or counts are integers here. A field name that several interfaces
  share (\<open>name\<close>, \<open>row\<close>, \<open>col\<close>) keeps its plain name in the store and is prefixed in the
  smaller interfaces.
\<close>

record Cell =
  isMine :: bool
  isOpen :: bool
  isFlagged :: bool
  nearbyMines :: int

record PlayerStats =
  stats_name :: string
  score :: int

record PlayerHover =
  hover_row :: int
  hover_col :: int
  hover_name :: string
  hover_color :: string

datatype PvpStatus = Waiting | Playing | Won | Failed | Disconnected

record MinesweeperState =
  board :: "Cell list list"
  gameOver :: bool
  gameWon :: bool
  numRows :: int
  numCols :: int
  numMines :: int
  difficulty :: string
  mode :: string
  room :: string
  playerJoined :: bool
  name :: string
  playerStatsInRoom :: "PlayerStats list"
  gameOverName :: string
  playerHovers :: "string \<rightharpoonup> PlayerHover"
  pvpStarted :: bool
  pvpPlayerIndex :: "int option"
  pvpOpponentName :: string
  pvpOpponentStatus :: PvpStatus
  pvpWinner :: "string option"
  pvpRoomReady :: bool
  pvpIsHost :: bool
  pvpOpponentProgress :: int
  pvpTotalSafeCells :: int
  timerSeconds :: int
  timerRunning :: bool
  isChecked :: bool
  r :: int
  c :: int
  leftClick :: bool
  rightClick :: bool
  bothPressed :: bool

text \<open>The initial state given to \<open>create\<close>.\<close>

definition initialState :: MinesweeperState where
  "initialState =
     \<lparr> board = [], gameOver = False, gameWon = False,
       numRows = 16, numCols = 16, numMines = 40,
       difficulty = ''Medium'', mode = ''co-op'',
       room = '''', playerJoined = False, name = '''',
       playerStatsInRoom = [], gameOverName = '''', playerHovers = Map.empty,
       pvpStarted = False, pvpPlayerIndex = None, pvpOpponentName = '''',
       pvpOpponentStatus = Waiting, pvpWinner = None, pvpRoomReady = False,
       pvpIsHost = False, pvpOpponentProgress = 0, pvpTotalSafeCells = 0,
       timerSeconds = 0, timerRunning = False,
       isChecked = True, r = - 1, c = - 1,
       leftClick = False, rightClick = False, bothPressed = False \<rparr>"

text \<open>
  \<open>Array.prototype.map\<close> hands the callback the element and its index; the result has
  one element for each element of the array.
\<close>

fun map_from :: "nat \<Rightarrow> ('a \<Rightarrow> nat \<Rightarrow> 'b) \<Rightarrow> 'a list \<Rightarrow> 'b list" where
  "map_from i f [] = []"
| "map_from i f (x # xs) = f x i # map_from (Suc i) f xs"

definition array_map :: "('a \<Rightarrow> nat \<Rightarrow> 'b) \<Rightarrow> 'a list \<Rightarrow> 'b list" where
  "array_map f xs = map_from 0 f xs"

text \<open>
  \<open>setCell\<close>: the new board maps every row and every cell, replacing the cell whose two
  indices are strictly equal to \<open>row\<close> and \<open>col\<close>; the state is spread and its board
  replaced.
\<close>

definition setCell :: "int \<Rightarrow> int \<Rightarrow> Cell \<Rightarrow> MinesweeperState \<Rightarrow> MinesweeperState" where
  "setCell row col newCell state =
     (let newBoard =
        array_map (\<lambda>rw rowIndex.
          array_map (\<lambda>cl colIndex.
            if int rowIndex = row \<and> int colIndex = col then newCell else cl) rw)
          (board state)
      in state\<lparr>board := newBoard\<rparr>)"

text \<open>\<open>setBothPressed\<close> and \<open>resetPvpState\<close> merge a partial state into the store.\<close>

definition setBothPressed :: "bool \<Rightarrow> MinesweeperState \<Rightarrow> MinesweeperState" where
  "setBothPressed bp state = state\<lparr>bothPressed := bp\<rparr>"

definition resetPvpState :: "MinesweeperState \<Rightarrow> MinesweeperState" where
  "resetPvpState state =
     state\<lparr> pvpStarted := False,
            pvpPlayerIndex := None,
            pvpOpponentName := '''',
            pvpOpponentStatus := Waiting,
            pvpWinner := None,
            pvpRoomReady := False,
            pvpIsHost := False,
            pvpOpponentProgress := 0,
            pvpTotalSafeCells := 0,
            gameOver := False,
            gameWon := False \<rparr>"

text \<open>
  Reading a board at two indices: \<open>None\<close> where JavaScript reads \<open>undefined\<close>, outside
  the rows or outside the row.
\<close>

definition cellAt :: "Cell list list \<Rightarrow> nat \<Rightarrow> nat \<Rightarrow> Cell option" where
  "cellAt b i j = (if i < length b \<and> j < length (b ! i) then Some (b ! i ! j) else None)"

definition inBounds :: "Cell list list \<Rightarrow> int \<Rightarrow> int \<Rightarrow> bool" where
  "inBounds b row col =
     (0 \<le> row \<and> row < int (length b) \<and> 0 \<le> col \<and> col < int (length (b ! nat row)))"

section \<open>The Grid component (the second module of src/components/Timer.tsx)\<close>

text \<open>
  \<open>ownProgress\<close>: two nested \<open>for\<close> loops over the indices of the board, the outer over
  \<open>board.length\<close>, the inner over \<open>board[i].length\<close>, counting in \<open>revealedCount\<close>.
\<close>

function ownProgress_row :: "Cell list \<Rightarrow> nat \<Rightarrow> nat \<Rightarrow> nat" where
  "ownProgress_row rw j revealedCount =
     (if j < length rw
      then ownProgress_row rw (Suc j)
             (if isOpen (rw ! j) \<and> \<not> isMine (rw ! j) then Suc revealedCount else revealedCount)
      else revealedCount)"
  by pat_completeness auto
termination
  by (relation "measure (\<lambda>(rw, j, revealedCount). length rw - j)") auto

declare ownProgress_row.simps [simp del]

function ownProgress_rows :: "Cell list list \<Rightarrow> nat \<Rightarrow> nat \<Rightarrow> nat" where
  "ownProgress_rows b i revealedCount =
     (if i < length b
      then ownProgress_rows b (Suc i) (ownProgress_row (b ! i) 0 revealedCount)
      else revealedCount)"
  by pat_completeness auto
termination
  by (relation "measure (\<lambda>(b, i, revealedCount). length b - i)") auto

declare ownProgress_rows.simps [simp del]

definition ownProgress :: "Cell list list \<Rightarrow> nat" where
  "ownProgress b = ownProgress_rows b 0 0"

text \<open>
  What the specification counts: the cells of the board that are open and are not mines,
  as a list of cells.
\<close>

definition openSafeCells :: "Cell list list \<Rightarrow> Cell list" where
  "openSafeCells b = filter (\<lambda>cl. isOpen cl \<and> \<not> isMine cl) (concat b)"

text \<open>The same cells by their coordinates.\<close>

definition openSafeAt :: "Cell list list \<Rightarrow> (nat \<times> nat) set" where
  "openSafeAt b =
     {(i, j). i < length b \<and> j < length (b ! i) \<and> isOpen (b ! i ! j) \<and> \<not> isMine (b ! i ! j)}"

text \<open>
  The percentages divide and round in the engine's double arithmetic, which is taken as
  a parameter: the comparison \<open>\<le>\<close>, \<open>/\<close>, \<open>*\<close>, \<open>Math.round\<close> and the value of an integer
  literal or count. A percentage is returned together with the divisors its evaluation
  divided by, in order.
\<close>

record 'n NumberOps =
  num_le :: "'n \<Rightarrow> 'n \<Rightarrow> bool"
  num_div :: "'n \<Rightarrow> 'n \<Rightarrow> 'n"
  num_mul :: "'n \<Rightarrow> 'n \<Rightarrow> 'n"
  math_round :: "'n \<Rightarrow> 'n"
  num_of_int :: "int \<Rightarrow> 'n"

definition divide_traced :: "'n NumberOps \<Rightarrow> 'n \<Rightarrow> 'n \<Rightarrow> 'n \<times> 'n list" where
  "divide_traced ops a b = (num_div ops a b, [b])"

definition opponentProgressPercent :: "'n NumberOps \<Rightarrow> 'n \<Rightarrow> 'n \<Rightarrow> 'n \<times> 'n list" where
  "opponentProgressPercent ops opponentProgress totalSafeCells =
     (if num_le ops totalSafeCells (num_of_int ops 0) then (num_of_int ops 0, [])
      else (case divide_traced ops opponentProgress totalSafeCells of
              (q, divisors) \<Rightarrow>
                (math_round ops (num_mul ops q (num_of_int ops 100)), divisors)))"

definition ownProgressPercent :: "'n NumberOps \<Rightarrow> Cell list list \<Rightarrow> 'n \<Rightarrow> 'n \<times> 'n list" where
  "ownProgressPercent ops b totalSafeCells =
     (if num_le ops totalSafeCells (num_of_int ops 0) then (num_of_int ops 0, [])
      else (case divide_traced ops (num_of_int ops (int (ownProgress b))) totalSafeCells of
              (q, divisors) \<Rightarrow>
                (math_round ops (num_mul ops q (num_of_int ops 100)), divisors)))"

text \<open>Exact rational arithmetic, rounding halves up as \<open>Math.round\<close> does: one instance.\<close>

definition ratOps :: "rat NumberOps" where
  "ratOps = \<lparr> num_le = (\<le>), num_div = (/), num_mul = (*),
              math_round = (\<lambda>x. of_int \<lfloor>x + 1 / 2\<rfloor>), num_of_int = of_int \<rparr>"

text \<open>
  The chording effect. The callbacks the Grid receives from its parent are the calls it
  can make; the effect runs on the values of the store at the render and gives the
  updated store and the calls made, in order.
\<close>

datatype GridCall =
    LeaveRoom
  | ResetGame
  | ToggleFlag int int
  | OpenCell int int
  | ChordCell int int
  | EmitConfetti
  | EmitCellHover int int
  | HandleBoardLeave
  | StartPvpGame
  | ResetMyBoard
  | PvpRematch

definition chordingEffect :: "MinesweeperState \<Rightarrow> MinesweeperState \<times> GridCall list" where
  "chordingEffect state =
     (if leftClick state \<and> rightClick state
      then (setBothPressed True state,
            if r state \<ge> 0 \<and> c state \<ge> 0 then [ChordCell (r state) (c state)] else [])
      else if \<not> leftClick state \<and> \<not> rightClick state
      then (setBothPressed False state, [])
      else (state, []))"

section \<open>Environment and truthiness\<close>

text \<open>
  \<open>process.env\<close> maps a variable's name to its value, when it is set. A value that is
  \<open>undefined\<close> or the empty string is falsy: \<open>Boolean\<close>, \<open>!\<close>, \<open>||\<close> and \<open>if\<close> treat both
  alike.
\<close>

type_synonym env = "string \<rightharpoonup> string"

definition truthy :: "string option \<Rightarrow> bool" where
  "truthy v = (case v of None \<Rightarrow> False | Some s \<Rightarrow> s \<noteq> [])"

section \<open>The socket client (src/unnamed/part\_001)\<close>

text \<open>
  \<open>io(uri, opts)\<close> of the client library builds a socket that carries its address and its
  options; the session identifier is of any type.
\<close>

record 'sid Auth =
  sessionId :: 'sid

record 'sid SocketOptions =
  reconnection :: bool
  autoConnect :: bool
  auth :: "'sid Auth"

record 'sid Socket =
  uri :: string
  opts :: "'sid SocketOptions"

definition io :: "string \<Rightarrow> 'sid SocketOptions \<Rightarrow> 'sid Socket" where
  "io u os = \<lparr> uri = u, opts = os \<rparr>"

definition serverURL :: "env \<Rightarrow> string" where
  "serverURL e =
     (if truthy (e ''NEXT_PUBLIC_SERVER_URL'')
      then (case e ''NEXT_PUBLIC_SERVER_URL'' of Some u \<Rightarrow> u | None \<Rightarrow> [])
      else if e ''NODE_ENV'' = Some ''development''
      then ''http://localhost:3001''
      else ''https://nameless-coast-33840-33c3fd45fe2d.herokuapp.com'')"

definition initSocket :: "env \<Rightarrow> 'sid \<Rightarrow> 'sid Socket" where
  "initSocket e sid =
     io (serverURL e)
        \<lparr> reconnection = True, autoConnect = False, auth = \<lparr> sessionId = sid \<rparr> \<rparr>"

section \<open>The transport server (src/server/utils/initializeClient.js)\<close>

text \<open>
  The allow-list is an array of strings and possibly \<open>undefined\<close>, filtered by
  \<open>Boolean\<close>. The origin callback answers through \<open>callback(err, allow)\<close>: the pair of
  the error and the decision.
\<close>

definition allowedOrigins :: "env \<Rightarrow> string option list" where
  "allowedOrigins e =
     filter truthy
       [Some ''http://localhost:3000'',
        Some ''https://minesweeper-test.vercel.app'',
        Some ''https://www.minesweepercoop.com'',
        e ''FRONTEND_URL'']"

definition corsOrigin :: "env \<Rightarrow> string option \<Rightarrow> string option \<times> bool" where
  "corsOrigin e origin =
     (if \<not> truthy origin then (None, True)
      else if origin \<in> set (allowedOrigins e) then (None, True)
      else (None, False))"

record RecoveryOptions =
  maxDisconnectionDuration :: int
  skipMiddlewares :: bool

record ServerOptions =
  path :: string
  cors_methods :: "string list"
  cors_credentials :: bool
  cors_allowedHeaders :: "string list"
  transports :: "string list"
  allowEIO3 :: bool
  connectionStateRecovery :: RecoveryOptions

definition serverOptions :: ServerOptions where
  "serverOptions =
     \<lparr> path = ''/socket.io'',
       cors_methods = [''GET'', ''POST''],
       cors_credentials = True,
       cors_allowedHeaders = [''Content-Type''],
       transports = [''websocket'', ''polling''],
       allowEIO3 = True,
       connectionStateRecovery =
         \<lparr> maxDisconnectionDuration = 2 * 60 * 1000, skipMiddlewares = True \<rparr> \<rparr>"

definition millisecondsPerMinute :: int where
  "millisecondsPerMinute = 60 * 1000"

text \<open>
  Modelled from the spec: the record the transport keeps of a disconnected session. The
  recovery itself is code of the transport library and is not under src/; the server
  only hands it \<open>maxDisconnectionDuration\<close>. The spec has a session record kept from the
  disconnect on ("how long a disconnected player's slot and session record survive
  before permanent removal"). Times are milliseconds, as \<open>Date.now()\<close> counts them.
\<close>

record 'st SessionRecord =
  disconnectedAt :: int
  savedState :: 'st

text \<open>
  Modelled from the spec: on a transport drop the session is kept, not removed, with the
  time of the disconnect.
\<close>

definition persistSession ::
  "int \<Rightarrow> 'pid \<Rightarrow> 'st \<Rightarrow> ('pid \<rightharpoonup> 'st SessionRecord) \<Rightarrow> ('pid \<rightharpoonup> 'st SessionRecord)" where
  "persistSession now pid st sessions =
     sessions(pid \<mapsto> \<lparr> disconnectedAt = now, savedState = st \<rparr>)"

text \<open>
  Modelled from the spec: the lookup on reconnect. A client that reconnects within the
  grace window gets its state back; after the window the record is removed for good and
  the client is a fresh join; expiry is lazy, checked on lookup. The window is the
  \<open>maxDisconnectionDuration\<close> of the options the server was created with.
\<close>

definition restoreSession ::
  "ServerOptions \<Rightarrow> int \<Rightarrow> 'pid \<Rightarrow> ('pid \<rightharpoonup> 'st SessionRecord) \<Rightarrow>
     'st option \<times> ('pid \<rightharpoonup> 'st SessionRecord)" where
  "restoreSession os now pid sessions =
     (case sessions pid of
        None \<Rightarrow> (None, sessions)
      | Some rec \<Rightarrow>
          if disconnectedAt rec + maxDisconnectionDuration (connectionStateRecovery os) < now
          then (None, sessions(pid := None))
          else (Some (savedState rec), sessions))"

section \<open>The session store client (src/unnamed/part\_000)\<close>

text \<open>
  What the code does to the world is written to it: the lines of the console and the
  delays of the timers registered with \<open>setInterval\<close>. A statement runs on a world and
  gives the world after it and either the value it returns or the error it throws (for
  an awaited promise: the value it resolves with or the error it rejects with).
  The store library is a parameter: what \<open>createClient\<close> returns or throws for the
  options, and what the promises of \<open>connect\<close> and \<open>ping\<close> settle with.
\<close>

datatype 'e ConsoleLine = LogLine string | ErrorLine string 'e

record 'e World =
  console :: "'e ConsoleLine list"
  intervals :: "nat list"

type_synonym ('e, 'a) stmt = "'e World \<Rightarrow> ('e + 'a) \<times> 'e World"

definition ret :: "'a \<Rightarrow> ('e, 'a) stmt" where
  "ret x w = (Inr x, w)"

definition throw :: "'e \<Rightarrow> ('e, 'a) stmt" where
  "throw err w = (Inl err, w)"

definition settle :: "'e + 'a \<Rightarrow> ('e, 'a) stmt" where
  "settle res w = (res, w)"

definition seq :: "('e, 'a) stmt \<Rightarrow> ('a \<Rightarrow> ('e, 'b) stmt) \<Rightarrow> ('e, 'b) stmt" where
  "seq m f w = (case m w of (Inl err, w') \<Rightarrow> (Inl err, w') | (Inr x, w') \<Rightarrow> f x w')"

definition tryCatch :: "('e, 'a) stmt \<Rightarrow> ('e \<Rightarrow> ('e, 'a) stmt) \<Rightarrow> ('e, 'a) stmt" where
  "tryCatch m handler w =
     (case m w of (Inl err, w') \<Rightarrow> handler err w' | (Inr x, w') \<Rightarrow> (Inr x, w'))"

definition console_log :: "string \<Rightarrow> ('e, unit) stmt" where
  "console_log msg w = (Inr (), w\<lparr>console := console w @ [LogLine msg]\<rparr>)"

definition console_error :: "string \<Rightarrow> 'e \<Rightarrow> ('e, unit) stmt" where
  "console_error msg err w = (Inr (), w\<lparr>console := console w @ [ErrorLine msg err]\<rparr>)"

definition setInterval :: "nat \<Rightarrow> ('e, unit) stmt" where
  "setInterval delay w = (Inr (), w\<lparr>intervals := intervals w @ [delay]\<rparr>)"

datatype RedisOptions =
    UrlOptions string
  | FieldOptions string "string option" "string option" "string option"

record ('e, 'cl) Redis =
  createClient :: "RedisOptions \<Rightarrow> 'e + 'cl"
  connect :: "'cl \<Rightarrow> 'e + unit"

text \<open>
  The callback of the timer, on what the awaited \<open>client.ping()\<close> settles with at that
  tick. (The marks that open the console messages are outside ASCII and left out.)
\<close>

definition pingProbe :: "'e + unit \<Rightarrow> ('e, unit) stmt" where
  "pingProbe pong =
     tryCatch (settle pong) (\<lambda>err. console_error ''Redis ping failed:'' err)"

definition pingIntervalMs :: nat where
  "pingIntervalMs = 60000"

text \<open>
  The timer runs the callback once per tick, for the pings of the ticks in order, and
  counts the ticks it has run; a callback that threw would end the run at that tick.
\<close>

fun runInterval :: "('e + unit) list \<Rightarrow> ('e, nat) stmt" where
  "runInterval [] w = (Inr 0, w)"
| "runInterval (pong # pongs) w =
     (case pingProbe pong w of
        (Inl err, w') \<Rightarrow> (Inl err, w')
      | (Inr u, w') \<Rightarrow>
          (case runInterval pongs w' of
             (Inl err, w'') \<Rightarrow> (Inl err, w'')
           | (Inr ticks, w'') \<Rightarrow> (Inr (Suc ticks), w'')))"

text \<open>The line a ping leaves on the console: one error line when it failed, none otherwise.\<close>

definition pingLines :: "'e + unit \<Rightarrow> 'e ConsoleLine list" where
  "pingLines pong =
     (case pong of Inl err \<Rightarrow> [ErrorLine ''Redis ping failed:'' err] | Inr u \<Rightarrow> [])"

definition redisOptions :: "env \<Rightarrow> RedisOptions" where
  "redisOptions e =
     (if truthy (e ''REDIS_URL'')
      then UrlOptions (case e ''REDIS_URL'' of Some u \<Rightarrow> u | None \<Rightarrow> [])
      else FieldOptions ''default'' (e ''DB_PASS'') (e ''HOST'') (e ''REDIS_PORT''))"

definition initializeRedisClient :: "env \<Rightarrow> ('e, 'cl) Redis \<Rightarrow> ('e, 'cl) stmt" where
  "initializeRedisClient e redis =
     tryCatch
       (seq (settle (createClient redis (redisOptions e))) (\<lambda>client.
        seq (setInterval pingIntervalMs) (\<lambda>u.
        seq (tryCatch
               (seq (settle (connect redis client)) (\<lambda>u. console_log ''Connected to Redis''))
               (\<lambda>err. console_error ''Redis connection error:'' err)) (\<lambda>u.
        ret client))))
       (\<lambda>error. seq (console_error ''Failed to connect to Redis:'' error) (\<lambda>u. throw error))"

section \<open>Example data\<close>

definition closedCell :: Cell where
  "closedCell = \<lparr> isMine = False, isOpen = False, isFlagged = False, nearbyMines = 0 \<rparr>"

definition openCell1 :: Cell where
  "openCell1 = \<lparr> isMine = False, isOpen = True, isFlagged = False, nearbyMines = 1 \<rparr>"

definition openMine :: Cell where
  "openMine = \<lparr> isMine = True, isOpen = True, isFlagged = False, nearbyMines = 0 \<rparr>"

definition exampleState :: MinesweeperState where
  "exampleState = initialState\<lparr>board := [[closedCell, openCell1], [openMine, closedCell]]\<rparr>"

definition leftOnly :: MinesweeperState where
  "leftOnly = exampleState\<lparr>r := 0, c := 1, leftClick := True, bothPressed := True\<rparr>"

definition deployedEnv :: env where
  "deployedEnv = [''FRONTEND_URL'' \<mapsto> ''https://play.example.org'']"

definition productionEnv :: env where
  "productionEnv = deployedEnv(''NODE_ENV'' \<mapsto> ''production'')"

definition unreachableRedis :: "(string, nat) Redis" where
  "unreachableRedis =
     \<lparr> createClient = (\<lambda>os. Inr 7), connect = (\<lambda>cl. Inl ''ECONNREFUSED'') \<rparr>"

definition emptyWorld :: "string World" where
  "emptyWorld = \<lparr> console = [], intervals = [] \<rparr>"

section \<open>Properties of the store\<close>

lemma length_map_from: "length (map_from i f xs) = length xs"
  by (induction xs arbitrary: i) simp_all

lemma nth_map_from: "k < length xs \<Longrightarrow> map_from i f xs ! k = f (xs ! k) (i + k)"
proof (induction xs arbitrary: i k)
  case Nil
  then show ?case by simp
next
  case (Cons x xs)
  then show ?case by (cases k) simp_all
qed

lemma length_array_map: "length (array_map f xs) = length xs"
  by (simp add: array_map_def length_map_from)

lemma nth_array_map: "k < length xs \<Longrightarrow> array_map f xs ! k = f (xs ! k) k"
  by (simp add: array_map_def nth_map_from)

lemma array_map_id:
  assumes "\<And>k. k < length xs \<Longrightarrow> f (xs ! k) k = xs ! k"
  shows "array_map f xs = xs"
  using assms by (intro nth_equalityI) (simp_all add: length_array_map nth_array_map)

lemma board_setCell_length:
  "length (board (setCell row col newCell s)) = length (board s)"
  by (simp add: setCell_def length_array_map)

lemma board_setCell_row:
  assumes "i < length (board s)"
  shows "board (setCell row col newCell s) ! i =
         array_map (\<lambda>cl colIndex. if int i = row \<and> int colIndex = col then newCell else cl)
           (board s ! i)"
  using assms by (simp add: setCell_def nth_array_map)

lemma cellAt_setCell_other:
  assumes "(int i, int j) \<noteq> (row, col)"
  shows "cellAt (board (setCell row col newCell s)) i j = cellAt (board s) i j"
proof (cases "i < length (board s)")
  case False
  then show ?thesis by (simp add: cellAt_def board_setCell_length)
next
  case True
  show ?thesis
  proof (cases "j < length (board s ! i)")
    case False
    with True show ?thesis
      by (simp add: cellAt_def board_setCell_length board_setCell_row length_array_map)
  next
    case inrow: True
    with True assms show ?thesis
      by (auto simp: cellAt_def board_setCell_length board_setCell_row length_array_map
          nth_array_map)
  qed
qed

lemma board_setCell_out_of_bounds:
  assumes "\<not> inBounds (board s) row col"
  shows "board (setCell row col newCell s) = board s"
proof -
  have "array_map (\<lambda>rw rowIndex.
          array_map (\<lambda>cl colIndex.
            if int rowIndex = row \<and> int colIndex = col then newCell else cl) rw)
          (board s) = board s"
  proof (rule array_map_id)
    fix k assume k: "k < length (board s)"
    show "array_map (\<lambda>cl colIndex. if int k = row \<and> int colIndex = col then newCell else cl)
            (board s ! k) = board s ! k"
    proof (rule array_map_id)
      fix m assume m: "m < length (board s ! k)"
      have "\<not> (int k = row \<and> int m = col)"
        using assms k m by (auto simp: inBounds_def)
      then show "(if int k = row \<and> int m = col then newCell else board s ! k ! m) = board s ! k ! m"
        by auto
    qed
  qed
  then show ?thesis by (simp add: setCell_def)
qed

text \<open>
  C9. \<open>setCell row col newCell\<close> changes at most the cell at \<open>(row, col)\<close>: reading any
  other pair of indices gives what it gave before (a cell, or nothing outside the
  board); putting the old board back gives the old store, so no other field changed;
  and when \<open>(row, col)\<close> is outside the board the board is the same as before.
\<close>

theorem setCell_frame:
  "(\<forall>i j. (int i, int j) \<noteq> (row, col) \<longrightarrow>
       cellAt (board (setCell row col newCell s)) i j = cellAt (board s) i j)
   \<and> (setCell row col newCell s)\<lparr>board := board s\<rparr> = s
   \<and> (\<not> inBounds (board s) row col \<longrightarrow> board (setCell row col newCell s) = board s)"
proof (intro conjI allI impI)
  fix i j assume "(int i, int j) \<noteq> (row, col)"
  then show "cellAt (board (setCell row col newCell s)) i j = cellAt (board s) i j"
    by (rule cellAt_setCell_other)
next
  show "(setCell row col newCell s)\<lparr>board := board s\<rparr> = s"
    by (simp add: setCell_def)
next
  assume "\<not> inBounds (board s) row col"
  then show "board (setCell row col newCell s) = board s"
    by (rule board_setCell_out_of_bounds)
qed

theorem setCell_frame_witness:
  "(int 1, int 0) \<noteq> (0 :: int, 1 :: int)
   \<and> cellAt (board (setCell 0 1 openMine exampleState)) 1 0 = cellAt (board exampleState) 1 0
   \<and> cellAt (board exampleState) 1 0 = Some openMine
   \<and> \<not> inBounds (board exampleState) 0 2
   \<and> board (setCell 0 2 openMine exampleState) = board exampleState"
proof -
  have ne: "(int 1, int 0) \<noteq> (0 :: int, 1 :: int)"
    by simp
  from setCell_frame [of 0 1 openMine exampleState] ne
  have kept: "cellAt (board (setCell 0 1 openMine exampleState)) 1 0 = cellAt (board exampleState) 1 0"
    by blast
  have out: "\<not> inBounds (board exampleState) 0 2"
    by (simp add: exampleState_def inBounds_def)
  from setCell_frame [of 0 2 openMine exampleState] out
  have same: "board (setCell 0 2 openMine exampleState) = board exampleState"
    by blast
  have "cellAt (board exampleState) 1 0 = Some openMine"
    by (simp add: exampleState_def cellAt_def)
  with ne kept out same show ?thesis
    by blast
qed

text \<open>
  C8. \<open>resetPvpState\<close> gives the nine PVP fields, \<open>gameOver\<close> and \<open>gameWon\<close> the values
  they have in the initial state, and leaves the room, the player's name, the players'
  statistics, the board and the board configuration (rows, columns, mines, difficulty,
  mode) as they were.
\<close>

theorem resetPvpState_frame:
  "pvpStarted (resetPvpState s) = pvpStarted initialState
   \<and> pvpPlayerIndex (resetPvpState s) = pvpPlayerIndex initialState
   \<and> pvpOpponentName (resetPvpState s) = pvpOpponentName initialState
   \<and> pvpOpponentStatus (resetPvpState s) = pvpOpponentStatus initialState
   \<and> pvpWinner (resetPvpState s) = pvpWinner initialState
   \<and> pvpRoomReady (resetPvpState s) = pvpRoomReady initialState
   \<and> pvpIsHost (resetPvpState s) = pvpIsHost initialState
   \<and> pvpOpponentProgress (resetPvpState s) = pvpOpponentProgress initialState
   \<and> pvpTotalSafeCells (resetPvpState s) = pvpTotalSafeCells initialState
   \<and> gameOver (resetPvpState s) = gameOver initialState
   \<and> gameWon (resetPvpState s) = gameWon initialState
   \<and> room (resetPvpState s) = room s
   \<and> name (resetPvpState s) = name s
   \<and> playerStatsInRoom (resetPvpState s) = playerStatsInRoom s
   \<and> board (resetPvpState s) = board s
   \<and> numRows (resetPvpState s) = numRows s
   \<and> numCols (resetPvpState s) = numCols s
   \<and> numMines (resetPvpState s) = numMines s
   \<and> difficulty (resetPvpState s) = difficulty s
   \<and> mode (resetPvpState s) = mode s"
  by (simp add: resetPvpState_def initialState_def)

section \<open>Properties of the Grid component\<close>

lemma ownProgress_row_eq:
  "ownProgress_row rw j n = n + length (filter (\<lambda>cl. isOpen cl \<and> \<not> isMine cl) (drop j rw))"
proof (induction rw j n rule: ownProgress_row.induct)
  case (1 rw j n)
  show ?case
  proof (cases "j < length rw")
    case True
    then have d: "drop j rw = rw ! j # drop (Suc j) rw"
      by (simp add: Cons_nth_drop_Suc)
    from True 1 show ?thesis
      by (subst ownProgress_row.simps) (simp add: d)
  next
    case False
    then show ?thesis
      by (subst ownProgress_row.simps) simp
  qed
qed

lemma ownProgress_rows_eq:
  "ownProgress_rows b i n = n + length (openSafeCells (drop i b))"
proof (induction b i n rule: ownProgress_rows.induct)
  case (1 b i n)
  show ?case
  proof (cases "i < length b")
    case True
    then have d: "drop i b = b ! i # drop (Suc i) b"
      by (simp add: Cons_nth_drop_Suc)
    from True 1 show ?thesis
      by (subst ownProgress_rows.simps) (simp add: d ownProgress_row_eq openSafeCells_def)
  next
    case False
    then show ?thesis
      by (subst ownProgress_rows.simps) (simp add: openSafeCells_def)
  qed
qed



lemma openSafeAt_snoc:
  "openSafeAt (b @ [rw]) = openSafeAt b \<union> (\<lambda>j. (length b, j)) ` {j. j < length rw \<and> isOpen (rw ! j) \<and> \<not> isMine (rw ! j)}"
  by (auto simp: openSafeAt_def nth_append less_Suc_eq)

lemma finite_openSafeAt: "finite (openSafeAt b)"
proof -
  have "openSafeAt b \<subseteq> (\<Union>i\<in>{..<length b}. (\<lambda>j. (i, j)) ` {..<length (b ! i)})"
    by (auto simp: openSafeAt_def)
  moreover have "finite (\<Union>i\<in>{..<length b}. (\<lambda>j. (i, j)) ` {..<length (b ! i)})"
    by simp
  ultimately show ?thesis by (rule finite_subset)
qed

lemma card_openSafeAt: "card (openSafeAt b) = length (openSafeCells b)"
proof (induction b rule: rev_induct)
  case Nil
  then show ?case by (simp add: openSafeAt_def openSafeCells_def)
next
  case (snoc rw b)
  let ?J = "{j. j < length rw \<and> isOpen (rw ! j) \<and> \<not> isMine (rw ! j)}"
  have disj: "openSafeAt b \<inter> (\<lambda>j. (length b, j)) ` ?J = {}"
    by (auto simp: openSafeAt_def)
  have inj: "inj_on (\<lambda>j. (length b, j)) ?J"
    by (simp add: inj_on_def)
  have "card (openSafeAt (b @ [rw])) = card (openSafeAt b) + card ((\<lambda>j. (length b, j)) ` ?J)"
    unfolding openSafeAt_snoc
    by (rule card_Un_disjoint) (simp_all add: finite_openSafeAt disj)
  also have "card ((\<lambda>j. (length b, j)) ` ?J) = card ?J"
    by (rule card_image) (rule inj)
  also have "card ?J = length (filter (\<lambda>cl. isOpen cl \<and> \<not> isMine cl) rw)"
    by (simp add: length_filter_conv_card)
  finally show ?case
    using snoc.IH by (simp add: openSafeCells_def)
qed

text \<open>
  C2. For every board, \<open>ownProgress\<close> is the number of cells that are open and are not
  mines, counted by coordinates and counted as cells; on a board where every cell is
  closed or a mine it is 0, so open mines and closed safe cells add nothing.
\<close>

theorem ownProgress_counts_open_safe_cells:
  "ownProgress b = card (openSafeAt b)
   \<and> ownProgress b = length (openSafeCells b)
   \<and> ((\<forall>cl \<in> set (concat b). \<not> isOpen cl \<or> isMine cl) \<longrightarrow> ownProgress b = 0)"
proof -
  have eq: "ownProgress b = length (openSafeCells b)"
    by (simp add: ownProgress_def ownProgress_rows_eq)
  have "openSafeCells b = []" if "\<forall>cl \<in> set (concat b). \<not> isOpen cl \<or> isMine cl"
    using that unfolding openSafeCells_def filter_empty_conv by blast
  with eq show ?thesis
    by (simp add: card_openSafeAt)
qed

theorem ownProgress_counts_open_safe_cells_witness:
  "isOpen closedCell = False \<and> isMine openMine = True
   \<and> ownProgress [[closedCell], [openMine]] = 0"
proof -
  have closed_or_mine: "\<forall>cl \<in> set (concat [[closedCell], [openMine]]). \<not> isOpen cl \<or> isMine cl"
    by (simp add: closedCell_def openMine_def)
  with ownProgress_counts_open_safe_cells [of "[[closedCell], [openMine]]"]
  have "ownProgress [[closedCell], [openMine]] = 0"
    by blast
  then show ?thesis
    by (simp add: closedCell_def openMine_def)
qed

lemma ownProgress_exampleState: "ownProgress (board exampleState) = 1"
  by (simp add: ownProgress_def ownProgress_rows_eq openSafeCells_def exampleState_def
      closedCell_def openCell1_def openMine_def)

text \<open>
  C10. Both percentages are guarded: when \<open>pvpTotalSafeCells \<le> 0\<close> they are 0 and nothing
  was divided; otherwise each is \<open>Math.round((progress / pvpTotalSafeCells) * 100)\<close>, with
  one division, by \<open>pvpTotalSafeCells\<close>; and no divisor of either evaluation is \<open>\<le> 0\<close>.
\<close>

theorem progress_percent_division_safe:
  "(num_le ops totalSafe (num_of_int ops 0) \<longrightarrow>
      opponentProgressPercent ops progress totalSafe = (num_of_int ops 0, [])
      \<and> ownProgressPercent ops b totalSafe = (num_of_int ops 0, []))
   \<and> (\<not> num_le ops totalSafe (num_of_int ops 0) \<longrightarrow>
      opponentProgressPercent ops progress totalSafe =
        (math_round ops (num_mul ops (num_div ops progress totalSafe) (num_of_int ops 100)),
         [totalSafe])
      \<and> ownProgressPercent ops b totalSafe =
        (math_round ops
           (num_mul ops (num_div ops (num_of_int ops (int (ownProgress b))) totalSafe)
              (num_of_int ops 100)),
         [totalSafe]))
   \<and> (\<forall>d \<in> set (snd (opponentProgressPercent ops progress totalSafe))
             \<union> set (snd (ownProgressPercent ops b totalSafe)).
        \<not> num_le ops d (num_of_int ops 0))"
  by (simp add: opponentProgressPercent_def ownProgressPercent_def divide_traced_def)

theorem progress_percent_division_safe_witness:
  "num_le ratOps 0 (num_of_int ratOps 0)
   \<and> opponentProgressPercent ratOps 5 0 = (0, [])
   \<and> ownProgressPercent ratOps (board exampleState) 0 = (0, [])
   \<and> (num_le ratOps 8 (num_of_int ratOps 0)) = False
   \<and> opponentProgressPercent ratOps 1 8 = (13, [8])
   \<and> ownProgressPercent ratOps (board exampleState) 8 = (13, [8])"
  using progress_percent_division_safe [of ratOps 0 5 "board exampleState"]
    progress_percent_division_safe [of ratOps 8 1 "board exampleState"]
  by (simp add: ratOps_def ownProgress_exampleState)

text \<open>
  C1. One run of the chording effect calls \<open>chordCell\<close> exactly when both buttons are
  down and both coordinates are at least 0, with the coordinates of the store; it makes
  at most one call and never calls \<open>openCell\<close>; with exactly one button down it makes no
  call and leaves the store as it is; the latch \<open>bothPressed\<close> goes from set to unset only
  when both buttons are up, is unset whenever both are up and set whenever both are down.
\<close>

theorem chord_is_one_call:
  "(ChordCell i j \<in> set (snd (chordingEffect s)) \<longleftrightarrow>
      leftClick s \<and> rightClick s \<and> 0 \<le> r s \<and> 0 \<le> c s \<and> i = r s \<and> j = c s)
   \<and> length (snd (chordingEffect s)) \<le> 1
   \<and> OpenCell i j \<notin> set (snd (chordingEffect s))
   \<and> (leftClick s \<noteq> rightClick s \<longrightarrow> chordingEffect s = (s, []))
   \<and> (bothPressed s \<and> \<not> bothPressed (fst (chordingEffect s)) \<longrightarrow>
        \<not> leftClick s \<and> \<not> rightClick s)
   \<and> (\<not> leftClick s \<and> \<not> rightClick s \<longrightarrow> \<not> bothPressed (fst (chordingEffect s)))
   \<and> (leftClick s \<and> rightClick s \<longrightarrow> bothPressed (fst (chordingEffect s)))"
  by (auto simp: chordingEffect_def setBothPressed_def)

theorem chord_is_one_call_witness:
  "leftClick leftOnly = True \<and> rightClick leftOnly = False
   \<and> chordingEffect leftOnly = (leftOnly, [])
   \<and> bothPressed exampleState = False
   \<and> bothPressed (fst (chordingEffect exampleState)) = False
   \<and> bothPressed (fst (chordingEffect (leftOnly\<lparr>rightClick := True\<rparr>))) = True
   \<and> bothPressed (fst (chordingEffect (exampleState\<lparr>bothPressed := True\<rparr>))) = False"
  using chord_is_one_call [of 0 0 leftOnly] chord_is_one_call [of 0 0 exampleState]
    chord_is_one_call [of 0 0 "leftOnly\<lparr>rightClick := True\<rparr>"]
    chord_is_one_call [of 0 0 "exampleState\<lparr>bothPressed := True\<rparr>"]
  by (simp add: leftOnly_def exampleState_def initialState_def)

section \<open>Properties of the socket client\<close>

text \<open>
  C3. For every session identifier, the socket \<open>initSocket\<close> returns carries that
  identifier in \<open>auth.sessionId\<close>, has \<open>reconnection\<close> on and \<open>autoConnect\<close> off, and is
  addressed to the server URL; two identifiers give the same socket only when they are
  equal.
\<close>

theorem initSocket_options:
  "sessionId (auth (opts (initSocket e sid))) = sid
   \<and> reconnection (opts (initSocket e sid)) = True
   \<and> autoConnect (opts (initSocket e sid)) = False
   \<and> uri (initSocket e sid) = serverURL e
   \<and> (initSocket e sid = initSocket e sid') = (sid = sid')"
  by (simp add: initSocket_def io_def)

section \<open>Properties of the transport server\<close>

text \<open>
  C4. The recovery window of the server's options is the constant 120000 milliseconds,
  two minutes, whatever the environment. A session that disconnected at \<open>t0\<close> is given
  back, and its record kept, at every time up to \<open>t0 + 120000\<close>; at every later time
  nothing is given back and the record is removed.
\<close>

theorem recovery_window_two_minutes:
  "maxDisconnectionDuration (connectionStateRecovery serverOptions) = 120000
   \<and> maxDisconnectionDuration (connectionStateRecovery serverOptions) = 2 * millisecondsPerMinute
   \<and> (now \<le> t0 + 120000 \<longrightarrow>
        restoreSession serverOptions now pid (persistSession t0 pid st sessions) =
          (Some st, persistSession t0 pid st sessions))
   \<and> (t0 + 120000 < now \<longrightarrow>
        restoreSession serverOptions now pid (persistSession t0 pid st sessions) =
          (None, (persistSession t0 pid st sessions)(pid := None)))"
  by (simp add: serverOptions_def millisecondsPerMinute_def restoreSession_def
      persistSession_def)

theorem recovery_window_two_minutes_witness:
  "(121000 :: int) \<le> 1000 + 120000
   \<and> fst (restoreSession serverOptions 121000 ''p1''
             (persistSession 1000 ''p1'' exampleState Map.empty)) = Some exampleState
   \<and> (1000 :: int) + 120000 < 121001
   \<and> fst (restoreSession serverOptions 121001 ''p1''
             (persistSession 1000 ''p1'' exampleState Map.empty)) = None
   \<and> snd (restoreSession serverOptions 121001 ''p1''
             (persistSession 1000 ''p1'' exampleState Map.empty)) ''p1'' = None"
  using recovery_window_two_minutes
      [of 121000 1000 "''p1''" exampleState "Map.empty :: string \<rightharpoonup> MinesweeperState SessionRecord"]
    recovery_window_two_minutes
      [of 121001 1000 "''p1''" exampleState "Map.empty :: string \<rightharpoonup> MinesweeperState SessionRecord"]
  by simp

lemma FRONTEND_URL_deployedEnv: "deployedEnv ''FRONTEND_URL'' = Some ''https://play.example.org''"
  by (simp add: deployedEnv_def)

lemma FRONTEND_URL_productionEnv: "productionEnv ''FRONTEND_URL'' = deployedEnv ''FRONTEND_URL''"
  by (simp add: productionEnv_def)

lemma allowedOrigins_productionEnv: "allowedOrigins productionEnv = allowedOrigins deployedEnv"
  by (simp only: allowedOrigins_def FRONTEND_URL_productionEnv)

lemma allowedOrigins_deployedEnv:
  "allowedOrigins deployedEnv =
     [Some ''http://localhost:3000'', Some ''https://minesweeper-test.vercel.app'',
      Some ''https://www.minesweepercoop.com'', Some ''https://play.example.org'']"
  by (simp add: allowedOrigins_def FRONTEND_URL_deployedEnv truthy_def)

lemma corsOrigin_deployedEnv_examples:
  "snd (corsOrigin deployedEnv (Some ''https://example.org'')) = False"
  "snd (corsOrigin deployedEnv (Some ''https://play.example.org'')) = True"
  "snd (corsOrigin deployedEnv None) = True"
  by (simp_all add: corsOrigin_def allowedOrigins_deployedEnv truthy_def)

lemma set_allowedOrigins:
  "set (allowedOrigins e) =
     {Some ''http://localhost:3000'', Some ''https://minesweeper-test.vercel.app'',
      Some ''https://www.minesweepercoop.com''}
     \<union> (if truthy (e ''FRONTEND_URL'') then {e ''FRONTEND_URL''} else {})"
  by (auto simp: allowedOrigins_def truthy_def)

text \<open>
  C7. The origin callback never reports an error and accepts exactly when the origin is
  absent, is the empty string or is in the allow-list; the allow-list holds the three
  fixed URLs and \<open>FRONTEND_URL\<close> when it is set and not empty; and two environments with
  the same allow-list decide every origin alike.
\<close>

theorem corsOrigin_decision:
  "(snd (corsOrigin e origin) \<longleftrightarrow>
      origin = None \<or> origin = Some [] \<or> origin \<in> set (allowedOrigins e))
   \<and> fst (corsOrigin e origin) = None
   \<and> set (allowedOrigins e) =
       {Some ''http://localhost:3000'', Some ''https://minesweeper-test.vercel.app'',
        Some ''https://www.minesweepercoop.com''}
       \<union> (if truthy (e ''FRONTEND_URL'') then {e ''FRONTEND_URL''} else {})
   \<and> (\<forall>e'. set (allowedOrigins e') = set (allowedOrigins e) \<longrightarrow>
         corsOrigin e' origin = corsOrigin e origin)"
proof -
  have "snd (corsOrigin e origin) \<longleftrightarrow>
      origin = None \<or> origin = Some [] \<or> origin \<in> set (allowedOrigins e)"
    by (cases origin) (simp_all add: corsOrigin_def truthy_def)
  moreover have "fst (corsOrigin e origin) = None"
    by (simp add: corsOrigin_def)
  moreover have "\<forall>e'. set (allowedOrigins e') = set (allowedOrigins e) \<longrightarrow>
         corsOrigin e' origin = corsOrigin e origin"
    by (simp add: corsOrigin_def)
  ultimately show ?thesis
    using set_allowedOrigins [of e] by blast
qed

theorem corsOrigin_decision_witness:
  "set (allowedOrigins productionEnv) = set (allowedOrigins deployedEnv)
   \<and> corsOrigin productionEnv (Some ''https://example.org'') =
       corsOrigin deployedEnv (Some ''https://example.org'')
   \<and> snd (corsOrigin deployedEnv (Some ''https://example.org'')) = False
   \<and> snd (corsOrigin deployedEnv (Some ''https://play.example.org'')) = True
   \<and> snd (corsOrigin deployedEnv None) = True"
proof -
  have same: "set (allowedOrigins productionEnv) = set (allowedOrigins deployedEnv)"
    by (simp only: allowedOrigins_productionEnv)
  have alike: "corsOrigin productionEnv (Some ''https://example.org'') =
       corsOrigin deployedEnv (Some ''https://example.org'')"
    using corsOrigin_decision [of deployedEnv "Some ''https://example.org''",
        THEN conjunct2, THEN conjunct2, THEN conjunct2, THEN spec, THEN mp, OF same] .
  show ?thesis
    by (intro conjI same alike corsOrigin_deployedEnv_examples)
qed

section \<open>Properties of the session store client\<close>

lemma pingProbe_eq: "pingProbe pong w = (Inr (), w\<lparr>console := console w @ pingLines pong\<rparr>)"
  by (cases pong)
    (simp_all add: pingProbe_def tryCatch_def settle_def console_error_def pingLines_def)

lemma runInterval_eq:
  "runInterval pongs w =
     (Inr (length pongs), w\<lparr>console := console w @ concat (map pingLines pongs)\<rparr>)"
  by (induction pongs arbitrary: w) (simp_all add: pingProbe_eq)

lemma initializeRedisClient_created:
  assumes "createClient redis (redisOptions e) = Inr cl"
  shows "initializeRedisClient e redis w =
    (Inr cl, w\<lparr>intervals := intervals w @ [pingIntervalMs],
               console := console w @
                 (case connect redis cl of
                    Inl err \<Rightarrow> [ErrorLine ''Redis connection error:'' err]
                  | Inr u \<Rightarrow> [LogLine ''Connected to Redis''])\<rparr>)"
  using assms
  by (cases "connect redis cl")
    (simp_all add: initializeRedisClient_def tryCatch_def seq_def settle_def setInterval_def
      console_log_def console_error_def ret_def)

text \<open>
  C5. The probe is registered with a delay of 60000 milliseconds once the client is
  created. Whatever the ping settles with, the callback returns and does not throw, and
  a failed ping leaves one error line on the console. Over any sequence of pings the
  timer runs every tick, as many as there are pings, and the console holds one line for
  each failed ping, in order.
\<close>

theorem ping_probe_contained:
  "pingIntervalMs = 60000
   \<and> fst (pingProbe pong w) = Inr ()
   \<and> console (snd (pingProbe pong w)) = console w @ pingLines pong
   \<and> fst (runInterval pongs w) = Inr (length pongs)
   \<and> console (snd (runInterval pongs w)) = console w @ concat (map pingLines pongs)
   \<and> (createClient redis (redisOptions e) = Inr cl \<longrightarrow>
        intervals (snd (initializeRedisClient e redis w)) = intervals w @ [60000])"
  by (simp add: pingProbe_eq runInterval_eq initializeRedisClient_created pingIntervalMs_def)

theorem ping_probe_contained_witness:
  "createClient unreachableRedis (redisOptions Map.empty) = Inr 7
   \<and> intervals (snd (initializeRedisClient Map.empty unreachableRedis emptyWorld)) = [60000]
   \<and> fst (runInterval [Inl ''timeout'', Inr (), Inl ''closed''] emptyWorld) = Inr 3
   \<and> console (snd (runInterval [Inl ''timeout'', Inr (), Inl ''closed''] emptyWorld)) =
       [ErrorLine ''Redis ping failed:'' ''timeout'', ErrorLine ''Redis ping failed:'' ''closed'']"
  using ping_probe_contained [of "Inl ''timeout''" emptyWorld
      "[Inl ''timeout'', Inr (), Inl ''closed'']" unreachableRedis Map.empty 7]
  by (simp add: unreachableRedis_def emptyWorld_def pingLines_def)

text \<open>
  C6. When the client is created and its \<open>connect\<close> rejects, \<open>initializeRedisClient\<close>
  resolves with that client, and the console gains the line of the connection error
  and nothing else.
\<close>

theorem connect_failure_still_resolves:
  assumes "createClient redis (redisOptions e) = Inr cl"
    and "connect redis cl = Inl err"
  shows "fst (initializeRedisClient e redis w) = Inr cl
    \<and> console (snd (initializeRedisClient e redis w)) =
        console w @ [ErrorLine ''Redis connection error:'' err]"
  using assms by (simp add: initializeRedisClient_created)

theorem connect_failure_still_resolves_witness:
  "createClient unreachableRedis (redisOptions Map.empty) = Inr 7
   \<and> connect unreachableRedis 7 = Inl ''ECONNREFUSED''
   \<and> fst (initializeRedisClient Map.empty unreachableRedis emptyWorld) = Inr 7
   \<and> console (snd (initializeRedisClient Map.empty unreachableRedis emptyWorld)) =
        [ErrorLine ''Redis connection error:'' ''ECONNREFUSED'']"
  using connect_failure_still_resolves
    [of unreachableRedis Map.empty 7 "''ECONNREFUSED''" emptyWorld]
  by (simp add: unreachableRedis_def emptyWorld_def)

end
